theory Spec2Isabelle
  imports Complex_Main
begin

section \<open>Quote tool backend (server.js): values\<close>

text \<open>
  The pricing code of \<^verbatim>\<open>server.js\<close> is embedded function by function. JavaScript
  numbers are IEEE doubles; the finite ones are modelled as \<^typ>\<open>real\<close>, so the
  arithmetic of the formulas is exact, and the non-finite ones are separate constructors.
\<close>

datatype jsnumber = Finite real | PosInfinity | NegInfinity | NotANumber

text \<open>
  A value of the request body, as \<^verbatim>\<open>JSON.parse\<close> delivers it. A property that is
  absent (\<^verbatim>\<open>undefined\<close>) is \<^term>\<open>None\<close> of type \<open>json option\<close>.
\<close>

datatype json =
    JNull
  | JBool bool
  | JNum jsnumber
  | JStr string
  | JArr "json list"
  | JObj "(string \<times> json) list"

text \<open>
  A value computed by the pricing code. \<open>Inherited k\<close> is the member \<open>k\<close> of
  \<^verbatim>\<open>Object.prototype\<close> (a built-in function, or the prototype object itself for
  \<^verbatim>\<open>__proto__\<close>) that a property read on an object literal finds through the prototype
  chain. \<open>Str vs\<close> is a string produced by \<^verbatim>\<open>+\<close>: the concatenation of the string
  forms of the values \<open>vs\<close>, in order, none of which is itself a string. (The string form
  of a number is its decimal rendering, that of a member is its source text, such as
  \<^verbatim>\<open>function Object() { [native code] }\<close>; the renderings themselves are not modelled.)
\<close>

datatype jsval = Num real | NaN | Str "jsval list" | Inherited string | Undefined | Null

fun truthy :: "jsval \<Rightarrow> bool" where
  "truthy (Num r) = (r \<noteq> 0)"
| "truthy NaN = False"
| "truthy (Str vs) = (vs \<noteq> [])"
| "truthy (Inherited k) = True"
| "truthy Undefined = False"
| "truthy Null = False"

text \<open>\<^verbatim>\<open>a || b\<close> and \<^verbatim>\<open>a ?? b\<close>.\<close>

definition js_or :: "jsval \<Rightarrow> jsval \<Rightarrow> jsval" where
  "js_or a b = (if truthy a then a else b)"

definition js_nullish :: "jsval \<Rightarrow> jsval \<Rightarrow> jsval" where
  "js_nullish a b = (if a = Undefined \<or> a = Null then b else a)"

text \<open>
  \<^verbatim>\<open>ToNumber\<close>: a member of \<^verbatim>\<open>Object.prototype\<close> converts through its string form
  (\<^verbatim>\<open>function Object() { [native code] }\<close>, \<^verbatim>\<open>[object Object]\<close>), which is no numeric
  literal. No string reaches this conversion in the pricing code: \<^verbatim>\<open>+\<close> concatenates
  a string, and the operands of \<^verbatim>\<open>*\<close> are the base and the factors.
\<close>

fun toNumber :: "jsval \<Rightarrow> jsval" where
  "toNumber (Num r) = Num r"
| "toNumber Null = Num 0"
| "toNumber v = NaN"

text \<open>\<^verbatim>\<open>a * b\<close>: both operands are converted to numbers.\<close>

definition js_times :: "jsval \<Rightarrow> jsval \<Rightarrow> jsval" where
  "js_times a b =
     (case (toNumber a, toNumber b) of
        (Num x, Num y) \<Rightarrow> Num (x * y)
      | _ \<Rightarrow> NaN)"

text \<open>
  \<^verbatim>\<open>a + b\<close>: when either operand is a string, or an object (whose primitive form is
  its string form), the result is the concatenation of the two string forms; otherwise
  both are converted to numbers and added.
\<close>

fun stringish :: "jsval \<Rightarrow> bool" where
  "stringish (Str vs) = True"
| "stringish (Inherited k) = True"
| "stringish v = False"

fun pieces :: "jsval \<Rightarrow> jsval list" where
  "pieces (Str vs) = vs"
| "pieces v = [v]"

definition js_plus :: "jsval \<Rightarrow> jsval \<Rightarrow> jsval" where
  "js_plus a b =
     (if stringish a \<or> stringish b then Str (pieces a @ pieces b)
      else (case (toNumber a, toNumber b) of
              (Num x, Num y) \<Rightarrow> Num (x + y)
            | _ \<Rightarrow> NaN))"

text \<open>\<^verbatim>\<open>typeof v === "number"\<close>.\<close>

fun isNumberType :: "jsval \<Rightarrow> bool" where
  "isNumberType (Num r) = True"
| "isNumberType NaN = True"
| "isNumberType v = False"

section \<open>Pricing configuration\<close>

definition LIDAR_SMALL_THRESHOLD :: real where "LIDAR_SMALL_THRESHOLD = 35"
definition LIDAR_SMALL_RATE :: real where "LIDAR_SMALL_RATE = 100"
definition LIDAR_MINIMUM :: real where "LIDAR_MINIMUM = 2000"
definition LIDAR_LARGE_RATE :: real where "LIDAR_LARGE_RATE = 45"
definition LIDAR_BASE_FEE :: real where "LIDAR_BASE_FEE = 3500"

definition PHOTO_SMALL_THRESHOLD :: real where "PHOTO_SMALL_THRESHOLD = 35"
definition PHOTO_SMALL_RATE :: real where "PHOTO_SMALL_RATE = 40"
definition PHOTO_MINIMUM :: real where "PHOTO_MINIMUM = 800"
definition PHOTO_LARGE_RATE :: real where "PHOTO_LARGE_RATE = 20"
definition PHOTO_BASE_FEE :: real where "PHOTO_BASE_FEE = 1400"

text \<open>The tables are object literals: their own properties, in source order.\<close>

definition LIDAR_DENSITY_FACTORS :: "(string \<times> real) list" where
  "LIDAR_DENSITY_FACTORS =
     [(''8'', 0.9), (''20'', 1.0), (''40'', 1.15), (''60'', 1.25), (''250'', 1.6)]"

definition LIDAR_ACCURACY_FACTORS :: "(string \<times> real) list" where
  "LIDAR_ACCURACY_FACTORS = [(''0.5'', 0.9), (''0.3'', 1.0), (''0.1'', 1.15)]"

definition PHOTO_GSD_FACTORS :: "(string \<times> real) list" where
  "PHOTO_GSD_FACTORS = [(''6in'', 0.85), (''3in'', 1.0), (''1in'', 1.25)]"

definition ADD_ONS :: "(string \<times> real) list" where
  "ADD_ONS =
     [(''dtm'', 450), (''las'', 450), (''contours2ft'', 450),
      (''intensityGeoTIFF'', 450), (''dsm'', 450), (''planimetric'', 1200)]"

text \<open>
  The property names every object literal inherits from \<^verbatim>\<open>Object.prototype\<close> in Node.
  Each of them reads as a function, except \<^verbatim>\<open>__proto__\<close>, which reads as the prototype
  object; none of them is \<^verbatim>\<open>null\<close>, \<^verbatim>\<open>undefined\<close> or falsy.
\<close>

definition objectPrototypeMembers :: "string list" where
  "objectPrototypeMembers =
     [''constructor'', ''__defineGetter__'', ''__defineSetter__'', ''hasOwnProperty'',
      ''__lookupGetter__'', ''__lookupSetter__'', ''isPrototypeOf'',
      ''propertyIsEnumerable'', ''toString'', ''valueOf'', ''__proto__'',
      ''toLocaleString'']"

text \<open>
  \<^verbatim>\<open>TABLE[key]\<close>: an own property first, then the prototype chain, else
  \<^verbatim>\<open>undefined\<close>.
\<close>

definition getProp :: "(string \<times> real) list \<Rightarrow> string \<Rightarrow> jsval" where
  "getProp obj k =
     (case map_of obj k of
        Some v \<Rightarrow> Num v
      | None \<Rightarrow> if k \<in> set objectPrototypeMembers then Inherited k else Undefined)"

text \<open>
  \<^verbatim>\<open>String(opt || dflt)\<close> for a tier option or the service name. The option is
  modelled as an optional string: \<^term>\<open>None\<close> is an absent or \<^verbatim>\<open>null\<close> property, and
  the empty string is falsy like them. (A number or a boolean sent as the option would
  first go through \<^verbatim>\<open>String\<close>; that conversion is outside this model.)
\<close>

definition stringOr :: "string option \<Rightarrow> string \<Rightarrow> string" where
  "stringOr opt dflt = (case opt of None \<Rightarrow> dflt | Some s \<Rightarrow> if s = [] then dflt else s)"

section \<open>Base formulas\<close>

text \<open>The result \<^term>\<open>None\<close> is \<^verbatim>\<open>null\<close>: a manual quote.\<close>

definition computeLidarBase :: "real \<Rightarrow> real option" where
  "computeLidarBase acres =
     (if acres \<le> LIDAR_SMALL_THRESHOLD then Some (max LIDAR_MINIMUM (acres * LIDAR_SMALL_RATE))
      else if acres \<le> 300 then Some ((acres * LIDAR_LARGE_RATE) + LIDAR_BASE_FEE)
      else None)"

definition computePhotoBase :: "real \<Rightarrow> real option" where
  "computePhotoBase acres =
     (if acres \<le> PHOTO_SMALL_THRESHOLD then Some (max PHOTO_MINIMUM (acres * PHOTO_SMALL_RATE))
      else if acres \<le> 300 then Some ((acres * PHOTO_LARGE_RATE) + PHOTO_BASE_FEE)
      else None)"

section \<open>Quotes\<close>

text \<open>
  The service-specific part of a breakdown: \<open>NoBase\<close> is \<^verbatim>\<open>{ base: null }\<close>,
  \<open>LidarParts base densityFactor accuracyFactor addOns addOnsTotal\<close> and
  \<open>PhotoParts base gsd factor\<close> are the two priced shapes.
\<close>

datatype parts =
    NoBase
  | LidarParts real jsval jsval "string list" jsval
  | PhotoParts real string jsval

text \<open>
  The mobilization fields are absent (\<^term>\<open>None\<close>) until the request handler sets them.
\<close>

record breakdown =
  parts :: parts
  mobilizationMiles :: "real option"
  mobilizationCharge :: "real option"

record quote =
  manualQuote :: bool
  price :: jsval
  breakdown :: breakdown

text \<open>
  The value of \<^verbatim>\<open>opts.addOns\<close>: \<open>NoAddOns\<close> is an absent or falsy one, which
  \<^verbatim>\<open>opts.addOns || []\<close> replaces by the empty array; \<open>KeyArray ks\<close> is an array, each
  element standing for the property key it converts to in \<^verbatim>\<open>ADD_ONS[k]\<close>;
  \<open>NotAnArray\<close> is any other value (a non-empty string, a non-zero number, \<^verbatim>\<open>true\<close>, an
  object), which is truthy and has no method \<^verbatim>\<open>forEach\<close>.
\<close>

datatype addOnsValue = NoAddOns | KeyArray "string list" | NotAnArray

text \<open>
  The exception of the pricing code: \<^verbatim>\<open>addOns.forEach is not a function\<close>. The request
  handler catches it and answers with status 500.
\<close>

datatype error = TypeError

text \<open>
  The options of a lidar quote. An absent options object reads like one with every
  property absent.
\<close>

record lidarOpts =
  density :: "string option"
  accuracy :: "string option"
  addOns :: addOnsValue

record photoOpts =
  gsd :: "string option"

definition manualSentinel :: quote where
  "manualSentinel =
     \<lparr>manualQuote = True, price = Null,
      breakdown = \<lparr>parts = NoBase, mobilizationMiles = None, mobilizationCharge = None\<rparr>\<rparr>"

text \<open>
  The \<^verbatim>\<open>forEach\<close> over the selected add-ons, with the running \<^verbatim>\<open>addOnsTotal\<close>:
  \<^verbatim>\<open>addOnsTotal += (ADD_ONS[k] || 0)\<close>.
\<close>

fun addOnsLoop :: "jsval \<Rightarrow> string list \<Rightarrow> jsval" where
  "addOnsLoop addOnsTotal [] = addOnsTotal"
| "addOnsLoop addOnsTotal (k # ks) =
     addOnsLoop (js_plus addOnsTotal (js_or (getProp ADD_ONS k) (Num 0))) ks"

text \<open>
  \<^verbatim>\<open>opts.addOns || []\<close> as the receiver of \<^verbatim>\<open>forEach\<close>: the keys to visit (the
  array named \<^verbatim>\<open>addOns\<close> in the source, \<open>selected\<close> below), or the exception when the
  value has no such method.
\<close>

definition forEachKeys :: "addOnsValue \<Rightarrow> error + string list" where
  "forEachKeys v = (case v of NoAddOns \<Rightarrow> Inr [] | KeyArray ks \<Rightarrow> Inr ks | NotAnArray \<Rightarrow> Inl TypeError)"

text \<open>
  The result is the quote, or the exception thrown by \<^verbatim>\<open>addOns.forEach\<close>. Above 300
  acres the function returns before it reads the options.
\<close>

definition calcLidar :: "real \<Rightarrow> lidarOpts \<Rightarrow> error + quote" where
  "calcLidar acres opts =
     (case computeLidarBase acres of
        None \<Rightarrow> Inr manualSentinel
      | Some base \<Rightarrow>
          let densityFactor =
                js_nullish (getProp LIDAR_DENSITY_FACTORS (stringOr (density opts) ''20'')) (Num 1.0);
              accuracyFactor =
                js_nullish (getProp LIDAR_ACCURACY_FACTORS (stringOr (accuracy opts) ''0.3'')) (Num 1.0);
              price = js_times (js_times (Num base) densityFactor) accuracyFactor
          in (case forEachKeys (addOns opts) of
                Inl e \<Rightarrow> Inl e
              | Inr selected \<Rightarrow>
                  let addOnsTotal = addOnsLoop (Num 0) selected
                  in Inr \<lparr>manualQuote = False, price = js_plus price addOnsTotal,
                          breakdown =
                            \<lparr>parts = LidarParts base densityFactor accuracyFactor selected addOnsTotal,
                             mobilizationMiles = None, mobilizationCharge = None\<rparr>\<rparr>))"

definition calcPhoto :: "real \<Rightarrow> photoOpts \<Rightarrow> quote" where
  "calcPhoto acres opts =
     (case computePhotoBase acres of
        None \<Rightarrow> manualSentinel
      | Some base \<Rightarrow>
          let factor = js_nullish (getProp PHOTO_GSD_FACTORS (stringOr (gsd opts) ''3in'')) (Num 1.0)
          in \<lparr>manualQuote = False, price = js_times (Num base) factor,
              breakdown = \<lparr>parts = PhotoParts base (stringOr (gsd opts) ''3in'') factor,
                           mobilizationMiles = None, mobilizationCharge = None\<rparr>\<rparr>)"

section \<open>Mobilization\<close>

definition BUDA_TX :: "real \<times> real" where
  "BUDA_TX = (-97.8403, 30.0810)"

text \<open>
  The geometry library (turf) is not part of the repository; its two operations are
  parameters of the model. \<open>pointDistance t depot c\<close> is the outcome of building the two
  points and calling \<^verbatim>\<open>turf.distance\<close> in miles on the coordinate array \<open>c\<close>:
  \<^term>\<open>None\<close> when any of the calls throws, else the number returned.
  \<open>booleanIntersects t f\<close> is \<^verbatim>\<open>turf.booleanIntersects(f, AUTO_AREA)\<close>: \<^term>\<open>None\<close> when
  it throws.
\<close>

record turf =
  pointDistance :: "real \<times> real \<Rightarrow> json list \<Rightarrow> jsnumber option"
  booleanIntersects :: "json \<Rightarrow> bool option"

definition calcMobilizationMiles :: "turf \<Rightarrow> json \<Rightarrow> real" where
  "calcMobilizationMiles t centroidLonLat =
     (case centroidLonLat of
        JArr xs \<Rightarrow>
          if length xs \<noteq> 2 then 0
          else (case pointDistance t BUDA_TX xs of
                  None \<Rightarrow> 0
                | Some (Finite miles) \<Rightarrow> if miles > 0 then miles else 0
                | Some _ \<Rightarrow> 0)
      | _ \<Rightarrow> 0)"

text \<open>\<^verbatim>\<open>Math.round\<close>: the nearest integer, a tie going up.\<close>

definition mathRound :: "real \<Rightarrow> real" where
  "mathRound x = of_int \<lfloor>x + 1 / 2\<rfloor>"

record mobilization =
  miles :: real
  charge :: real

definition calcMobilizationCharge :: "turf \<Rightarrow> json \<Rightarrow> bool \<Rightarrow> mobilization" where
  "calcMobilizationCharge t centroidLonLat on =
     (if \<not> on then \<lparr>miles = 0, charge = 0\<rparr>
      else let miles = calcMobilizationMiles t centroidLonLat
           in if miles \<le> 30 then \<lparr>miles = miles, charge = 0\<rparr>
              else let over = max 0 (miles - 30)
                   in \<lparr>miles = miles, charge = 250 + mathRound over\<rparr>)"

section \<open>The request handler\<close>

fun jsonTruthy :: "json \<Rightarrow> bool" where
  "jsonTruthy JNull = False"
| "jsonTruthy (JBool b) = b"
| "jsonTruthy (JNum (Finite r)) = (r \<noteq> 0)"
| "jsonTruthy (JNum NotANumber) = False"
| "jsonTruthy (JNum PosInfinity) = True"
| "jsonTruthy (JNum NegInfinity) = True"
| "jsonTruthy (JStr s) = (s \<noteq> [])"
| "jsonTruthy (JArr xs) = True"
| "jsonTruthy (JObj kvs) = True"

text \<open>\<^verbatim>\<open>v || dflt\<close> on a property of the body that may be absent.\<close>

definition jsonOr :: "json option \<Rightarrow> json \<Rightarrow> json" where
  "jsonOr v dflt = (case v of None \<Rightarrow> dflt | Some x \<Rightarrow> if jsonTruthy x then x else dflt)"

definition clampNumber :: "json \<Rightarrow> real" where
  "clampNumber n = (case n of JNum (Finite r) \<Rightarrow> max 0 r | _ \<Rightarrow> 0)"

text \<open>
  \<^verbatim>\<open>toLowerCase\<close>, on the letters that matter for the comparison with the service
  names: the ASCII capitals. (No other character lowers to an ASCII letter of
  \<^verbatim>\<open>lidar\<close>, \<^verbatim>\<open>photo\<close> or \<^verbatim>\<open>photogrammetry\<close>.)
\<close>

definition lowerChar :: "char \<Rightarrow> char" where
  "lowerChar c =
     (case map_of (zip ''ABCDEFGHIJKLMNOPQRSTUVWXYZ'' ''abcdefghijklmnopqrstuvwxyz'') c of
        Some l \<Rightarrow> l
      | None \<Rightarrow> c)"

definition toLowerCase :: "string \<Rightarrow> string" where
  "toLowerCase s = map lowerChar s"

record areaOfInterest =
  totalArea_acres :: "json option"
  centroid_lonlat :: "json option"
  features :: "json option"

text \<open>\<open>mobilizationOn\<close> is \<^verbatim>\<open>!!options.mobilization.on\<close>.\<close>

record serviceOptions =
  service :: "string option"
  lidar :: lidarOpts
  photo :: photoOpts
  mobilizationOn :: bool

record submission =
  aoi :: areaOfInterest
  options :: serviceOptions

text \<open>
  \<^verbatim>\<open>features.some(f => turf.booleanIntersects(f, AUTO_AREA))\<close>: the features are tried
  in order and the first that intersects ends the search. \<^term>\<open>None\<close> is an exception
  thrown by the library on the way.
\<close>

fun someIntersects :: "(json \<Rightarrow> bool option) \<Rightarrow> json list \<Rightarrow> bool option" where
  "someIntersects isect [] = Some False"
| "someIntersects isect (f # fs) =
     (case isect f of
        None \<Rightarrow> None
      | Some True \<Rightarrow> Some True
      | Some False \<Rightarrow> someIntersects isect fs)"

text \<open>
  The service-area check of the handler; the result \<^term>\<open>None\<close> is \<^verbatim>\<open>null\<close>. A value
  of \<^verbatim>\<open>aoi.features\<close> that is not an array ends with \<^verbatim>\<open>null\<close> too: a falsy one is
  replaced by \<^verbatim>\<open>[]\<close>, and any other either has no positive \<^verbatim>\<open>length\<close> or has no
  method \<^verbatim>\<open>some\<close>, which throws inside the \<^verbatim>\<open>try\<close>.
\<close>

definition serviceAreaCheck :: "turf \<Rightarrow> json option \<Rightarrow> bool option" where
  "serviceAreaCheck t fo =
     (case fo of
        Some (JArr fs) \<Rightarrow>
          if length fs > 0 then someIntersects (booleanIntersects t) fs else None
      | _ \<Rightarrow> None)"

record flags =
  areaOver300Acres :: bool
  inServiceArea :: "bool option"
  autoQuoteEligible :: bool

text \<open>
  The flags of the handler. They are computed before the quote and nothing in their
  computation throws past the \<^verbatim>\<open>try\<close> of the service-area check.
\<close>

definition eligibilityFlags :: "turf \<Rightarrow> submission \<Rightarrow> flags" where
  "eligibilityFlags t payload =
     (let acres = clampNumber (jsonOr (totalArea_acres (aoi payload)) (JNum (Finite 0)));
          inServiceArea = serviceAreaCheck t (features (aoi payload));
          areaOver300Acres = (acres > 300);
          autoQuoteEligible = (\<not> areaOver300Acres \<and> inServiceArea = Some True)
      in \<lparr>areaOver300Acres = areaOver300Acres, inServiceArea = inServiceArea,
          autoQuoteEligible = autoQuoteEligible\<rparr>)"

text \<open>What the handler hands to the two notifications.\<close>

record evaluated =
  flagsOf :: flags
  serviceOf :: string
  quoteOf :: quote

text \<open>
  The mobilization part of the handler: the charge is added to a price that is a
  number, and the rounded miles and the charge are recorded in either branch.
\<close>

definition addMobilization :: "quote \<Rightarrow> mobilization \<Rightarrow> quote" where
  "addMobilization q mob =
     (if \<not> manualQuote q \<and> isNumberType (price q)
      then q\<lparr>price := js_plus (price q) (Num (charge mob)),
              breakdown := (breakdown q)\<lparr>mobilizationMiles := Some (mathRound (miles mob)),
                                         mobilizationCharge := Some (charge mob)\<rparr>\<rparr>
      else q\<lparr>breakdown := (breakdown q)\<lparr>mobilizationMiles := Some (mathRound (miles mob)),
                                         mobilizationCharge := Some (charge mob)\<rparr>\<rparr>)"

text \<open>The service name and the mobilization result, as the handler computes them.\<close>

definition requestedService :: "submission \<Rightarrow> string" where
  "requestedService payload = toLowerCase (stringOr (service (options payload)) ''lidar'')"

definition requestedMobilization :: "turf \<Rightarrow> submission \<Rightarrow> mobilization" where
  "requestedMobilization t payload =
     calcMobilizationCharge t (jsonOr (centroid_lonlat (aoi payload)) JNull)
       (mobilizationOn (options payload))"

text \<open>
  \<^verbatim>\<open>app.post("/submitQuote")\<close> up to the dispatch. The result \<open>Inl e\<close> is an exception
  caught at the request boundary: the handler answers with status 500 and hands nothing
  to the notifications. (The request identifier, made from the clock and a random
  number, plays no part in the quote and is left out.)
\<close>

definition submitQuote :: "turf \<Rightarrow> submission \<Rightarrow> error + evaluated" where
  "submitQuote t payload =
     (let acres = clampNumber (jsonOr (totalArea_acres (aoi payload)) (JNum (Finite 0)));
          service = requestedService payload;
          flags = eligibilityFlags t payload;
          quote =
            (if service = ''lidar'' then calcLidar acres (lidar (options payload))
             else if service = ''photo'' \<or> service = ''photogrammetry''
               then Inr (calcPhoto acres (photo (options payload)))
             else calcLidar acres (lidar (options payload)));
          mob = requestedMobilization t payload
      in (case quote of
            Inl e \<Rightarrow> Inl e
          | Inr q \<Rightarrow>
              Inr \<lparr>flagsOf = flags, serviceOf = service, quoteOf = addMobilization q mob\<rparr>))"

section \<open>Auxiliary notions for the properties\<close>


text \<open>
  The fee the catalog \<^term>\<open>ADD_ONS\<close> lists for a key as an own property, and 0 for a
  key it does not list.
\<close>

definition catalogFee :: "string \<Rightarrow> real" where
  "catalogFee k = (case map_of ADD_ONS k of Some v \<Rightarrow> v | None \<Rightarrow> 0)"

section \<open>Add-on totals\<close>

text \<open>
  No name inherited from \<^verbatim>\<open>Object.prototype\<close> is a key of the catalog, so a read of
  such a name always reaches the prototype chain.
\<close>

lemma members_not_addons: "k \<in> set objectPrototypeMembers \<Longrightarrow> map_of ADD_ONS k = None"
  by (auto simp: objectPrototypeMembers_def ADD_ONS_def)

lemma addOn_step_numeric:
  "k \<notin> set objectPrototypeMembers \<Longrightarrow>
   js_plus (Num t) (js_or (getProp ADD_ONS k) (Num 0)) = Num (t + catalogFee k)"
  by (cases "map_of ADD_ONS k") (simp_all add: getProp_def js_or_def js_plus_def catalogFee_def)

lemma addOn_step_member:
  "k \<in> set objectPrototypeMembers \<Longrightarrow>
   js_plus t (js_or (getProp ADD_ONS k) (Num 0)) = Str (pieces t @ [Inherited k])"
  by (simp add: getProp_def js_or_def js_plus_def members_not_addons)

lemma addOn_value_pieces:
  "pieces (js_or (getProp obj k) (Num 0)) = [js_or (getProp obj k) (Num 0)]"
  by (simp add: getProp_def js_or_def split: option.splits)

lemma addOnsLoop_Str:
  "addOnsLoop (Str vs) ks = Str (vs @ map (\<lambda>k. js_or (getProp ADD_ONS k) (Num 0)) ks)"
  by (induction ks arbitrary: vs) (simp_all add: js_plus_def addOn_value_pieces)

lemma addOnsLoop_numeric:
  "\<forall>k\<in>set ks. k \<notin> set objectPrototypeMembers \<Longrightarrow>
   addOnsLoop (Num t) ks = Num (t + sum_list (map catalogFee ks))"
  by (induction ks arbitrary: t) (simp_all add: addOn_step_numeric add.assoc)

lemma addOnsLoop_member:
  "\<exists>k\<in>set ks. k \<in> set objectPrototypeMembers \<Longrightarrow> \<exists>vs. addOnsLoop (Num t) ks = Str vs"
proof (induction ks arbitrary: t)
  case Nil
  then show ?case by simp
next
  case (Cons k ks)
  show ?case
  proof (cases "k \<in> set objectPrototypeMembers")
    case True
    then show ?thesis by (simp add: addOn_step_member addOnsLoop_Str)
  next
    case False
    with Cons.prems have "\<exists>k\<in>set ks. k \<in> set objectPrototypeMembers" by auto
    with Cons.IH False show ?thesis by (simp add: addOn_step_numeric)
  qed
qed

text \<open>A sum over a list counts every element as often as it occurs.\<close>

lemma sum_list_count_on:
  fixes f :: "'a \<Rightarrow> real"
  assumes "finite A"
  shows "set xs \<subseteq> A \<Longrightarrow> sum_list (map f xs) = (\<Sum>x\<in>A. real (count_list xs x) * f x)"
proof (induction xs)
  case Nil
  show ?case by simp
next
  case (Cons a xs)
  have split: "real (count_list (a # xs) x) * f x =
      real (count_list xs x) * f x + (if a = x then f x else 0)" for x
    by (simp add: algebra_simps)
  from Cons.prems have "a \<in> A" by simp
  with assms have "(\<Sum>x\<in>A. if a = x then f x else 0) = f a"
    by (simp add: sum.delta')
  with Cons show ?case
    by (simp add: split sum.distrib del: count_list.simps)
qed

lemma sum_list_count:
  fixes f :: "'a \<Rightarrow> real"
  shows "sum_list (map f xs) = (\<Sum>x\<in>set xs. real (count_list xs x) * f x)"
  by (rule sum_list_count_on) simp_all

lemma addOnsLoop_append:
  "addOnsLoop t (xs @ ys) = addOnsLoop (addOnsLoop t xs) ys"
  by (induction xs arbitrary: t) simp_all

lemma addOnsLoop_total:
  assumes "\<forall>k\<in>set ks. k \<notin> set objectPrototypeMembers"
  shows "addOnsLoop (Num 0) ks = Num (\<Sum>k\<in>set ks. real (count_list ks k) * catalogFee k)"
proof -
  from assms have "addOnsLoop (Num 0) ks = Num (0 + sum_list (map catalogFee ks))"
    by (rule addOnsLoop_numeric)
  then show ?thesis by (simp add: sum_list_count)
qed

text \<open>
  The total from the first key that names a member on: the sum so far, the member, and
  then one value for each later key.
\<close>

lemma addOnsLoop_first_member:
  assumes "\<forall>k\<in>set pre. k \<notin> set objectPrototypeMembers" and "k \<in> set objectPrototypeMembers"
  shows "addOnsLoop (Num t) (pre @ k # post) =
     Str ([Num (t + sum_list (map catalogFee pre)), Inherited k] @
          map (\<lambda>k. js_or (getProp ADD_ONS k) (Num 0)) post)"
  using assms
  by (simp add: addOnsLoop_append addOnsLoop_numeric addOn_step_member addOnsLoop_Str)

lemma addOnsLoop_shape:
  "(\<exists>vs. addOnsLoop (Num 0) ks = Str vs) \<or> (\<exists>v. addOnsLoop (Num 0) ks = Num v)"
proof (cases "\<exists>k\<in>set ks. k \<in> set objectPrototypeMembers")
  case True
  then show ?thesis by (simp add: addOnsLoop_member)
next
  case False
  then show ?thesis by (simp add: addOnsLoop_total)
qed

section \<open>Base formulas and quotes\<close>

lemmas base_consts =
  LIDAR_SMALL_THRESHOLD_def LIDAR_SMALL_RATE_def LIDAR_MINIMUM_def LIDAR_LARGE_RATE_def
  LIDAR_BASE_FEE_def PHOTO_SMALL_THRESHOLD_def PHOTO_SMALL_RATE_def PHOTO_MINIMUM_def
  PHOTO_LARGE_RATE_def PHOTO_BASE_FEE_def

lemma js_times_Num: "js_times (Num x) (Num y) = Num (x * y)"
  by (simp add: js_times_def)

lemma js_plus_Num: "js_plus (Num x) (Num y) = Num (x + y)"
  by (simp add: js_plus_def)

lemma gsd_factor_cases:
  "getProp PHOTO_GSD_FACTORS ''6in'' = Num 0.85"
  "getProp PHOTO_GSD_FACTORS ''3in'' = Num 1"
  "getProp PHOTO_GSD_FACTORS ''1in'' = Num 1.25"
  by (simp_all add: getProp_def PHOTO_GSD_FACTORS_def)

lemma forEachKeys_simps:
  "forEachKeys NoAddOns = Inr []" "forEachKeys (KeyArray ks) = Inr ks"
  "forEachKeys NotAnArray = Inl TypeError"
  by (simp_all add: forEachKeys_def)

lemma calcLidar_priced:
  assumes "computeLidarBase a = Some b"
  shows "calcLidar a opts =
     (case forEachKeys (addOns opts) of
        Inl e \<Rightarrow> Inl e
      | Inr ks \<Rightarrow>
          Inr \<lparr>manualQuote = False,
               price = js_plus
                 (js_times
                   (js_times (Num b)
                     (js_nullish (getProp LIDAR_DENSITY_FACTORS (stringOr (density opts) ''20'')) (Num 1)))
                   (js_nullish (getProp LIDAR_ACCURACY_FACTORS (stringOr (accuracy opts) ''0.3'')) (Num 1)))
                 (addOnsLoop (Num 0) ks),
               breakdown =
                 \<lparr>parts = LidarParts b
                    (js_nullish (getProp LIDAR_DENSITY_FACTORS (stringOr (density opts) ''20'')) (Num 1))
                    (js_nullish (getProp LIDAR_ACCURACY_FACTORS (stringOr (accuracy opts) ''0.3'')) (Num 1))
                    ks (addOnsLoop (Num 0) ks),
                  mobilizationMiles = None, mobilizationCharge = None\<rparr>\<rparr>)"
  using assms by (simp add: calcLidar_def Let_def split: sum.splits)

lemma lidar_base_exists: "a \<le> 300 \<Longrightarrow> \<exists>b. computeLidarBase a = Some b"
  by (simp add: computeLidarBase_def)

text \<open>
  C1. For every acreage \<open>a\<close> (a finite number; the formulas hold for a negative one too),
  the lidar base is \<open>max 2000 (100 * a)\<close> when \<open>a \<le> 35\<close> and \<open>45 * a + 3500\<close> when
  \<open>35 < a \<le> 300\<close>; when \<open>a > 300\<close> the base is \<^verbatim>\<open>null\<close> and the lidar quote is the
  manual sentinel (manual flag set, price \<^verbatim>\<open>null\<close>, breakdown \<^verbatim>\<open>{ base: null }\<close>),
  whatever the options are, also those on which \<^verbatim>\<open>forEach\<close> would throw: above 300
  acres no error is raised.
\<close>

theorem lidar_base_tiers:
  "(a \<le> 35 \<longrightarrow> computeLidarBase a = Some (max 2000 (100 * a))) \<and>
   (35 < a \<and> a \<le> 300 \<longrightarrow> computeLidarBase a = Some (45 * a + 3500)) \<and>
   (300 < a \<longrightarrow> computeLidarBase a = None \<and>
      calcLidar a opts =
        Inr \<lparr>manualQuote = True, price = Null,
             breakdown = \<lparr>parts = NoBase, mobilizationMiles = None, mobilizationCharge = None\<rparr>\<rparr>)"
  by (simp add: computeLidarBase_def calcLidar_def manualSentinel_def base_consts mult.commute)

theorem lidar_base_tiers_witness:
  "computeLidarBase 20 = Some 2000 \<and> computeLidarBase 100 = Some 8000 \<and>
   calcLidar 310 \<lparr>density = None, accuracy = None, addOns = NotAnArray\<rparr> =
     Inr \<lparr>manualQuote = True, price = Null,
          breakdown = \<lparr>parts = NoBase, mobilizationMiles = None, mobilizationCharge = None\<rparr>\<rparr>"
  using lidar_base_tiers [of 20] lidar_base_tiers [of 100]
    lidar_base_tiers [of 310 "\<lparr>density = None, accuracy = None, addOns = NotAnArray\<rparr>"]
  by simp

text \<open>
  C2. For every acreage \<open>a\<close>, the photogrammetry base is \<open>max 800 (40 * a)\<close> when
  \<open>a \<le> 35\<close> and \<open>20 * a + 1400\<close> when \<open>35 < a \<le> 300\<close>, and the quote is the manual
  sentinel when \<open>a > 300\<close>. Up to 300 acres the price is the base times the GSD factor
  recorded in the breakdown: 0.85, 1 and 1.25 for the tiers \<^verbatim>\<open>6in\<close>, \<^verbatim>\<open>3in\<close> and
  \<^verbatim>\<open>1in\<close>, and the tier is \<^verbatim>\<open>3in\<close> when the option is unspecified.
\<close>

theorem photo_price_tiers:
  "(a \<le> 35 \<longrightarrow> computePhotoBase a = Some (max 800 (40 * a))) \<and>
   (35 < a \<and> a \<le> 300 \<longrightarrow> computePhotoBase a = Some (20 * a + 1400)) \<and>
   (300 < a \<longrightarrow>
      calcPhoto a opts =
        \<lparr>manualQuote = True, price = Null,
         breakdown = \<lparr>parts = NoBase, mobilizationMiles = None, mobilizationCharge = None\<rparr>\<rparr>) \<and>
   (a \<le> 300 \<longrightarrow>
      (\<exists>b f. computePhotoBase a = Some b \<and>
         calcPhoto a opts =
           \<lparr>manualQuote = False, price = js_times (Num b) f,
            breakdown = \<lparr>parts = PhotoParts b (stringOr (gsd opts) ''3in'') f,
                         mobilizationMiles = None, mobilizationCharge = None\<rparr>\<rparr> \<and>
         (\<forall>r. f = Num r \<longrightarrow> price (calcPhoto a opts) = Num (b * r)) \<and>
         (stringOr (gsd opts) ''3in'' = ''6in'' \<longrightarrow> f = Num 0.85) \<and>
         (stringOr (gsd opts) ''3in'' = ''3in'' \<longrightarrow> f = Num 1) \<and>
         (stringOr (gsd opts) ''3in'' = ''1in'' \<longrightarrow> f = Num 1.25))) \<and>
   (gsd opts = None \<or> gsd opts = Some [] \<longrightarrow> stringOr (gsd opts) ''3in'' = ''3in'')"
proof -
  have tiers: "(a \<le> 35 \<longrightarrow> computePhotoBase a = Some (max 800 (40 * a))) \<and>
      (35 < a \<and> a \<le> 300 \<longrightarrow> computePhotoBase a = Some (20 * a + 1400))"
    by (simp add: computePhotoBase_def base_consts mult.commute)
  have manual: "300 < a \<longrightarrow> calcPhoto a opts =
      \<lparr>manualQuote = True, price = Null,
       breakdown = \<lparr>parts = NoBase, mobilizationMiles = None, mobilizationCharge = None\<rparr>\<rparr>"
    by (simp add: calcPhoto_def computePhotoBase_def manualSentinel_def base_consts)
  have priced: "\<exists>b f. computePhotoBase a = Some b \<and>
         calcPhoto a opts =
           \<lparr>manualQuote = False, price = js_times (Num b) f,
            breakdown = \<lparr>parts = PhotoParts b (stringOr (gsd opts) ''3in'') f,
                         mobilizationMiles = None, mobilizationCharge = None\<rparr>\<rparr> \<and>
         (\<forall>r. f = Num r \<longrightarrow> price (calcPhoto a opts) = Num (b * r)) \<and>
         (stringOr (gsd opts) ''3in'' = ''6in'' \<longrightarrow> f = Num 0.85) \<and>
         (stringOr (gsd opts) ''3in'' = ''3in'' \<longrightarrow> f = Num 1) \<and>
         (stringOr (gsd opts) ''3in'' = ''1in'' \<longrightarrow> f = Num 1.25)" if "a \<le> 300"
  proof -
    from that have "\<exists>b. computePhotoBase a = Some b"
      by (simp add: computePhotoBase_def)
    then obtain b where b: "computePhotoBase a = Some b" ..
    define f where "f = js_nullish (getProp PHOTO_GSD_FACTORS (stringOr (gsd opts) ''3in'')) (Num 1.0)"
    have q: "calcPhoto a opts =
           \<lparr>manualQuote = False, price = js_times (Num b) f,
            breakdown = \<lparr>parts = PhotoParts b (stringOr (gsd opts) ''3in'') f,
                         mobilizationMiles = None, mobilizationCharge = None\<rparr>\<rparr>"
      by (simp add: calcPhoto_def b f_def Let_def)
    have "\<forall>r. f = Num r \<longrightarrow> price (calcPhoto a opts) = Num (b * r)"
      by (simp add: q js_times_Num)
    moreover have "stringOr (gsd opts) ''3in'' = ''6in'' \<longrightarrow> f = Num 0.85"
      by (simp add: f_def gsd_factor_cases js_nullish_def)
    moreover have "stringOr (gsd opts) ''3in'' = ''3in'' \<longrightarrow> f = Num 1"
      by (simp add: f_def gsd_factor_cases js_nullish_def)
    moreover have "stringOr (gsd opts) ''3in'' = ''1in'' \<longrightarrow> f = Num 1.25"
      by (simp add: f_def gsd_factor_cases js_nullish_def)
    ultimately show ?thesis using b q by blast
  qed
  have dflt: "gsd opts = None \<or> gsd opts = Some [] \<longrightarrow> stringOr (gsd opts) ''3in'' = ''3in''"
    by (auto simp: stringOr_def)
  from tiers manual priced dflt show ?thesis by blast
qed

theorem photo_price_tiers_witness:
  "computePhotoBase 10 = Some 800 \<and> computePhotoBase 100 = Some 3400 \<and>
   manualQuote (calcPhoto 310 \<lparr>gsd = None\<rparr>) \<and>
   price (calcPhoto 10 \<lparr>gsd = Some ''1in''\<rparr>) = Num 1000 \<and>
   price (calcPhoto 10 \<lparr>gsd = None\<rparr>) = Num 800"
proof -
  have "computePhotoBase 10 = Some 800 \<and> computePhotoBase 100 = Some 3400"
    using photo_price_tiers [of 10] photo_price_tiers [of 100] by simp
  moreover have "manualQuote (calcPhoto 310 \<lparr>gsd = None\<rparr>)"
    using photo_price_tiers [of 310 "\<lparr>gsd = None\<rparr>"] by simp
  moreover have "price (calcPhoto 10 \<lparr>gsd = Some ''1in''\<rparr>) = Num 1000"
    using photo_price_tiers [of 10 "\<lparr>gsd = Some ''1in''\<rparr>"]
    by (auto simp: stringOr_def js_times_Num)
  moreover have "price (calcPhoto 10 \<lparr>gsd = None\<rparr>) = Num 800"
    using photo_price_tiers [of 10 "\<lparr>gsd = None\<rparr>"]
    by (auto simp: stringOr_def js_times_Num)
  ultimately show ?thesis by blast
qed

section \<open>Mobilization\<close>

lemma mathRound_round: "mathRound x = of_int (round x)"
  by (simp add: mathRound_def round_def)

lemma miles_nonneg: "0 \<le> calcMobilizationMiles t c"
  by (simp add: calcMobilizationMiles_def split: json.splits option.splits jsnumber.splits)

lemma miles_from_turf:
  "length xs = 2 \<Longrightarrow> pointDistance t BUDA_TX xs = Some (Finite m) \<Longrightarrow> 0 < m \<Longrightarrow>
   calcMobilizationMiles t (JArr xs) = m"
  by (simp add: calcMobilizationMiles_def)

lemma miles_malformed:
  "\<forall>xs m. c = JArr xs \<and> length xs = 2 \<longrightarrow> pointDistance t BUDA_TX xs \<noteq> Some (Finite m) \<Longrightarrow>
   calcMobilizationMiles t c = 0"
  by (auto simp: calcMobilizationMiles_def split: json.splits option.splits jsnumber.splits)

text \<open>
  C4. For every centroid \<open>c\<close> and every behaviour \<open>t\<close> of the geometry library: with
  mobilization off the result is 0 miles and charge 0, whatever the centroid; with
  mobilization on, a distance \<open>d\<close> of at most 30 miles gives charge 0 and a distance
  above 30 gives charge \<open>250 + round (d - 30)\<close>. The distance is the library's when the
  centroid is an array of two elements for which the library returns a positive finite
  number; for any other centroid (not an array, not two elements, the library throws or
  returns no finite number), and for a missing one, which the handler passes as
  \<^verbatim>\<open>null\<close>, the distance is 0 and the charge is 0. The functions are total: nothing
  raises.
\<close>

theorem mobilization_charge_rule:
  "calcMobilizationCharge t c False = \<lparr>miles = 0, charge = 0\<rparr> \<and>
   (calcMobilizationMiles t c \<le> 30 \<longrightarrow>
      calcMobilizationCharge t c True = \<lparr>miles = calcMobilizationMiles t c, charge = 0\<rparr>) \<and>
   (30 < calcMobilizationMiles t c \<longrightarrow>
      calcMobilizationCharge t c True =
        \<lparr>miles = calcMobilizationMiles t c,
         charge = 250 + of_int (round (calcMobilizationMiles t c - 30))\<rparr>) \<and>
   (\<forall>xs m. c = JArr xs \<and> length xs = 2 \<and> pointDistance t BUDA_TX xs = Some (Finite m) \<and> 0 < m \<longrightarrow>
      calcMobilizationMiles t c = m) \<and>
   ((\<forall>xs m. c = JArr xs \<and> length xs = 2 \<longrightarrow> pointDistance t BUDA_TX xs \<noteq> Some (Finite m)) \<longrightarrow>
      calcMobilizationMiles t c = 0 \<and>
      calcMobilizationCharge t c True = \<lparr>miles = 0, charge = 0\<rparr>) \<and>
   jsonOr None JNull = JNull"
proof -
  have off: "calcMobilizationCharge t c False = \<lparr>miles = 0, charge = 0\<rparr>"
    by (simp add: calcMobilizationCharge_def)
  have near: "calcMobilizationMiles t c \<le> 30 \<longrightarrow>
      calcMobilizationCharge t c True = \<lparr>miles = calcMobilizationMiles t c, charge = 0\<rparr>"
    by (simp add: calcMobilizationCharge_def)
  have far: "30 < calcMobilizationMiles t c \<longrightarrow>
      calcMobilizationCharge t c True =
        \<lparr>miles = calcMobilizationMiles t c,
         charge = 250 + of_int (round (calcMobilizationMiles t c - 30))\<rparr>"
    by (simp add: calcMobilizationCharge_def Let_def mathRound_round max_def)
  have good: "\<forall>xs m. c = JArr xs \<and> length xs = 2 \<and>
      pointDistance t BUDA_TX xs = Some (Finite m) \<and> 0 < m \<longrightarrow> calcMobilizationMiles t c = m"
    by (auto simp: miles_from_turf)
  have bad: "(\<forall>xs m. c = JArr xs \<and> length xs = 2 \<longrightarrow> pointDistance t BUDA_TX xs \<noteq> Some (Finite m)) \<longrightarrow>
      calcMobilizationMiles t c = 0 \<and>
      calcMobilizationCharge t c True = \<lparr>miles = 0, charge = 0\<rparr>"
  proof
    assume "\<forall>xs m. c = JArr xs \<and> length xs = 2 \<longrightarrow> pointDistance t BUDA_TX xs \<noteq> Some (Finite m)"
    then have "calcMobilizationMiles t c = 0" by (rule miles_malformed)
    then show "calcMobilizationMiles t c = 0 \<and>
      calcMobilizationCharge t c True = \<lparr>miles = 0, charge = 0\<rparr>"
      by (simp add: calcMobilizationCharge_def)
  qed
  have "jsonOr None JNull = JNull" by (simp add: jsonOr_def)
  with off near far good bad show ?thesis by blast
qed

theorem mobilization_charge_rule_witness:
  "calcMobilizationCharge
     \<lparr>pointDistance = (\<lambda>depot c. Some (Finite 45)), booleanIntersects = (\<lambda>f. Some True)\<rparr>
     (JArr [JNum (Finite (-97)), JNum (Finite 30)]) True = \<lparr>miles = 45, charge = 265\<rparr> \<and>
   calcMobilizationCharge
     \<lparr>pointDistance = (\<lambda>depot c. Some (Finite 12)), booleanIntersects = (\<lambda>f. Some True)\<rparr>
     (JArr [JNum (Finite (-97)), JNum (Finite 30)]) True = \<lparr>miles = 12, charge = 0\<rparr> \<and>
   calcMobilizationCharge
     \<lparr>pointDistance = (\<lambda>depot c. Some (Finite 45)), booleanIntersects = (\<lambda>f. Some True)\<rparr>
     (JStr ''here'') True = \<lparr>miles = 0, charge = 0\<rparr>"
proof -
  let ?t = "\<lparr>pointDistance = (\<lambda>depot c. Some (Finite 45)), booleanIntersects = (\<lambda>f. Some True)\<rparr>"
  let ?u = "\<lparr>pointDistance = (\<lambda>depot c. Some (Finite 12)), booleanIntersects = (\<lambda>f. Some True)\<rparr>"
  let ?c = "JArr [JNum (Finite (-97)), JNum (Finite 30)]"
  have m45: "calcMobilizationMiles ?t ?c = 45" and m12: "calcMobilizationMiles ?u ?c = 12"
    by (simp_all add: calcMobilizationMiles_def)
  have "calcMobilizationCharge ?t ?c True = \<lparr>miles = 45, charge = 265\<rparr>"
    using mobilization_charge_rule [of ?t ?c] by (simp add: m45)
  moreover have "calcMobilizationCharge ?u ?c True = \<lparr>miles = 12, charge = 0\<rparr>"
    using mobilization_charge_rule [of ?u ?c] by (simp add: m12)
  moreover have "calcMobilizationCharge ?t (JStr ''here'') True = \<lparr>miles = 0, charge = 0\<rparr>"
    using mobilization_charge_rule [of ?t "JStr ''here''"] by simp
  ultimately show ?thesis by blast
qed

section \<open>Eligibility flags\<close>

text \<open>
  The search throws exactly when some feature makes the library throw and no feature
  before it intersects.
\<close>

lemma someIntersects_None_iff:
  "someIntersects isect fs = None \<longleftrightarrow>
   (\<exists>pre f post. fs = pre @ f # post \<and> isect f = None \<and> (\<forall>g\<in>set pre. isect g = Some False))"
proof (induction fs)
  case Nil
  show ?case by simp
next
  case (Cons a fs)
  show ?case
  proof (cases "isect a")
    case None
    have "a # fs = [] @ a # fs \<and> isect a = None \<and> (\<forall>g\<in>set []. isect g = Some False)"
      using None by simp
    then have "\<exists>pre f post. a # fs = pre @ f # post \<and> isect f = None \<and>
        (\<forall>g\<in>set pre. isect g = Some False)" by blast
    with None show ?thesis by simp
  next
    case (Some b)
    show ?thesis
    proof (cases b)
      case True
      have "\<not> (\<exists>pre f post. a # fs = pre @ f # post \<and> isect f = None \<and>
          (\<forall>g\<in>set pre. isect g = Some False))"
      proof
        assume "\<exists>pre f post. a # fs = pre @ f # post \<and> isect f = None \<and>
          (\<forall>g\<in>set pre. isect g = Some False)"
        then obtain pre f post where *: "a # fs = pre @ f # post" "isect f = None"
          "\<forall>g\<in>set pre. isect g = Some False" by blast
        show False
        proof (cases pre)
          case Nil
          with * Some show False by simp
        next
          case (Cons p ps)
          with * Some True show False by simp
        qed
      qed
      with Some True show ?thesis by simp
    next
      case False
      have "(\<exists>pre f post. a # fs = pre @ f # post \<and> isect f = None \<and>
          (\<forall>g\<in>set pre. isect g = Some False)) \<longleftrightarrow>
        (\<exists>pre f post. fs = pre @ f # post \<and> isect f = None \<and>
          (\<forall>g\<in>set pre. isect g = Some False))" (is "?L \<longleftrightarrow> ?R")
      proof
        assume ?L
        then obtain pre f post where *: "a # fs = pre @ f # post" "isect f = None"
          "\<forall>g\<in>set pre. isect g = Some False" by blast
        show ?R
        proof (cases pre)
          case Nil
          with * Some show ?R by simp
        next
          case (Cons p ps)
          with * have "fs = ps @ f # post" "\<forall>g\<in>set ps. isect g = Some False" by simp_all
          with * show ?R by blast
        qed
      next
        assume ?R
        then obtain pre f post where *: "fs = pre @ f # post" "isect f = None"
          "\<forall>g\<in>set pre. isect g = Some False" by blast
        then have "a # fs = (a # pre) @ f # post" "\<forall>g\<in>set (a # pre). isect g = Some False"
          using Some False by simp_all
        with * show ?L by blast
      qed
      with Cons.IH Some False show ?thesis by simp
    qed
  qed
qed

lemma someIntersects_Some:
  "someIntersects isect fs = Some b \<Longrightarrow> b = (\<exists>f\<in>set fs. isect f = Some True)"
  by (induction fs) (auto split: option.splits bool.splits)

lemma flags_submitQuote:
  "eligibilityFlags t p =
     \<lparr>areaOver300Acres = (clampNumber (jsonOr (totalArea_acres (aoi p)) (JNum (Finite 0))) > 300),
      inServiceArea = serviceAreaCheck t (features (aoi p)),
      autoQuoteEligible =
        (\<not> clampNumber (jsonOr (totalArea_acres (aoi p)) (JNum (Finite 0))) > 300 \<and>
         serviceAreaCheck t (features (aoi p)) = Some True)\<rparr>"
  by (simp add: eligibilityFlags_def Let_def)

lemma flagsOf_submitQuote: "submitQuote t p = Inr r \<Longrightarrow> flagsOf r = eligibilityFlags t p"
  by (auto simp: submitQuote_def Let_def split: sum.splits)

text \<open>
  C5. For every submission: \<open>areaOver300Acres\<close> is \<open>acres > 300\<close> on the normalized
  acreage. When \<^verbatim>\<open>aoi.features\<close> is an array, \<open>inServiceArea\<close> is \<^verbatim>\<open>null\<close> exactly
  when the array is empty or the intersection check fails (the library throws at a
  feature that the search reaches, no earlier feature intersecting), and otherwise it is
  the disjunction of \<open>feature intersects the service area\<close> over all features; when it is
  no array, \<open>inServiceArea\<close> is \<^verbatim>\<open>null\<close>. \<open>autoQuoteEligible\<close> is true exactly when
  \<open>areaOver300Acres\<close> is false and \<open>inServiceArea\<close> is \<^verbatim>\<open>true\<close>. These are the flags
  of every result the handler hands on.
\<close>

theorem eligibility_flags:
  "areaOver300Acres (eligibilityFlags t p) =
     (clampNumber (jsonOr (totalArea_acres (aoi p)) (JNum (Finite 0))) > 300) \<and>
   (\<forall>fs. features (aoi p) = Some (JArr fs) \<longrightarrow>
      (inServiceArea (eligibilityFlags t p) = None \<longleftrightarrow>
         fs = [] \<or>
         (\<exists>pre f post. fs = pre @ f # post \<and> booleanIntersects t f = None \<and>
            (\<forall>g\<in>set pre. booleanIntersects t g = Some False))) \<and>
      (\<forall>b. inServiceArea (eligibilityFlags t p) = Some b \<longrightarrow>
         b = (\<exists>f\<in>set fs. booleanIntersects t f = Some True))) \<and>
   ((\<forall>fs. features (aoi p) \<noteq> Some (JArr fs)) \<longrightarrow>
      inServiceArea (eligibilityFlags t p) = None) \<and>
   autoQuoteEligible (eligibilityFlags t p) =
     (\<not> areaOver300Acres (eligibilityFlags t p) \<and>
      inServiceArea (eligibilityFlags t p) = Some True) \<and>
   (\<forall>r. submitQuote t p = Inr r \<longrightarrow> flagsOf r = eligibilityFlags t p)"
proof (intro conjI allI impI)
  show "areaOver300Acres (eligibilityFlags t p) =
     (clampNumber (jsonOr (totalArea_acres (aoi p)) (JNum (Finite 0))) > 300)"
    by (simp add: flags_submitQuote)
next
  fix fs
  assume fs: "features (aoi p) = Some (JArr fs)"
  show "inServiceArea (eligibilityFlags t p) = None \<longleftrightarrow>
         fs = [] \<or>
         (\<exists>pre f post. fs = pre @ f # post \<and> booleanIntersects t f = None \<and>
            (\<forall>g\<in>set pre. booleanIntersects t g = Some False))"
  proof (cases "fs = []")
    case True
    with fs show ?thesis by (simp add: flags_submitQuote serviceAreaCheck_def)
  next
    case False
    with fs have "inServiceArea (eligibilityFlags t p) =
        someIntersects (booleanIntersects t) fs"
      by (simp add: flags_submitQuote serviceAreaCheck_def)
    with False show ?thesis
      by (simp only: someIntersects_None_iff simp_thms)
  qed
next
  fix fs b
  assume fs: "features (aoi p) = Some (JArr fs)"
    and b: "inServiceArea (eligibilityFlags t p) = Some b"
  from fs b have "fs \<noteq> []"
    by (auto simp: flags_submitQuote serviceAreaCheck_def)
  with fs b have "someIntersects (booleanIntersects t) fs = Some b"
    by (simp add: flags_submitQuote serviceAreaCheck_def)
  then show "b = (\<exists>f\<in>set fs. booleanIntersects t f = Some True)"
    by (rule someIntersects_Some)
next
  assume "\<forall>fs. features (aoi p) \<noteq> Some (JArr fs)"
  then show "inServiceArea (eligibilityFlags t p) = None"
    by (auto simp: flags_submitQuote serviceAreaCheck_def split: option.splits json.splits)
next
  show "autoQuoteEligible (eligibilityFlags t p) =
     (\<not> areaOver300Acres (eligibilityFlags t p) \<and>
      inServiceArea (eligibilityFlags t p) = Some True)"
    by (simp add: flags_submitQuote)
next
  fix r
  assume "submitQuote t p = Inr r"
  then show "flagsOf r = eligibilityFlags t p"
    by (rule flagsOf_submitQuote)
qed

theorem eligibility_flags_witness:
  "(\<exists>r. submitQuote
      \<lparr>pointDistance = (\<lambda>depot c. Some (Finite 45)),
       booleanIntersects = (\<lambda>f. if f = JStr ''inside'' then Some True else Some False)\<rparr>
      \<lparr>aoi = \<lparr>totalArea_acres = Some (JNum (Finite 20)), centroid_lonlat = None,
               features = Some (JArr [JStr ''outside'', JStr ''inside''])\<rparr>,
       options = \<lparr>service = None,
                  lidar = \<lparr>density = None, accuracy = None, addOns = NoAddOns\<rparr>,
                  photo = \<lparr>gsd = None\<rparr>, mobilizationOn = False\<rparr>\<rparr> = Inr r \<and>
      flagsOf r = \<lparr>areaOver300Acres = False, inServiceArea = Some True, autoQuoteEligible = True\<rparr>)"
proof -
  define t where "t = \<lparr>pointDistance = (\<lambda>depot c. Some (Finite 45)),
       booleanIntersects = (\<lambda>f. if f = JStr ''inside'' then Some True else Some False)\<rparr>"
  define p where "p = \<lparr>aoi = \<lparr>totalArea_acres = Some (JNum (Finite 20)), centroid_lonlat = None,
               features = Some (JArr [JStr ''outside'', JStr ''inside''])\<rparr>,
       options = \<lparr>service = None,
                  lidar = \<lparr>density = None, accuracy = None, addOns = NoAddOns\<rparr>,
                  photo = \<lparr>gsd = None\<rparr>, mobilizationOn = False\<rparr>\<rparr>"
  define r where "r = eligibilityFlags t p"
  have acres: "clampNumber (jsonOr (totalArea_acres (aoi p)) (JNum (Finite 0))) = 20"
    by (simp add: p_def clampNumber_def jsonOr_def)
  have fs: "features (aoi p) = Some (JArr [JStr ''outside'', JStr ''inside''])"
    by (simp add: p_def)
  have hit: "\<exists>f\<in>set [JStr ''outside'', JStr ''inside'']. booleanIntersects t f = Some True"
    by (simp add: t_def)
  have never: "booleanIntersects t f \<noteq> None" for f
    by (cases "f = JStr ''inside''") (simp_all add: t_def)
  have l: "computeLidarBase 20 = Some 2000"
    by (simp add: computeLidarBase_def base_consts)
  have "\<exists>e. submitQuote t p = Inr e"
    by (simp add: submitQuote_def Let_def p_def requestedService_def stringOr_def toLowerCase_def
        lowerChar_def jsonOr_def clampNumber_def calcLidar_priced [OF l] forEachKeys_simps)
  then obtain e where e: "submitQuote t p = Inr e" ..
  note inst = eligibility_flags [of t p, folded r_def]
  from inst have "areaOver300Acres r =
      (clampNumber (jsonOr (totalArea_acres (aoi p)) (JNum (Finite 0))) > 300)"
    by (rule conjunct1)
  then have over: "\<not> areaOver300Acres r"
    by (simp add: acres)
  from inst fs have "inServiceArea r = None \<longleftrightarrow>
      [JStr ''outside'', JStr ''inside''] = [] \<or>
      (\<exists>pre f post. [JStr ''outside'', JStr ''inside''] = pre @ f # post \<and>
          booleanIntersects t f = None \<and> (\<forall>g\<in>set pre. booleanIntersects t g = Some False))"
    by blast
  with never have "inServiceArea r \<noteq> None"
    by simp
  then obtain b where b: "inServiceArea r = Some b"
    by blast
  from inst fs b have "b = (\<exists>f\<in>set [JStr ''outside'', JStr ''inside'']. booleanIntersects t f = Some True)"
    by blast
  with hit b have inside: "inServiceArea r = Some True"
    by simp
  from inst have "autoQuoteEligible r = (\<not> areaOver300Acres r \<and> inServiceArea r = Some True)"
    by blast
  with over inside have eligible: "autoQuoteEligible r"
    by simp
  from inst e have "flagsOf e = r"
    by blast
  moreover from over inside eligible
  have "r = \<lparr>areaOver300Acres = False, inServiceArea = Some True, autoQuoteEligible = True\<rparr>"
    by (cases r) simp
  ultimately have "flagsOf e =
      \<lparr>areaOver300Acres = False, inServiceArea = Some True, autoQuoteEligible = True\<rparr>"
    by simp
  with e show ?thesis
    unfolding t_def p_def by blast
qed

section \<open>The quote of the handler\<close>


lemma addMobilization_fields:
  "manualQuote (addMobilization q m) = manualQuote q"
  "parts (breakdown (addMobilization q m)) = parts (breakdown q)"
  "mobilizationMiles (breakdown (addMobilization q m)) = Some (mathRound (miles m))"
  "mobilizationCharge (breakdown (addMobilization q m)) = Some (charge m)"
  "price (addMobilization q m) =
     (if \<not> manualQuote q \<and> isNumberType (price q) then js_plus (price q) (Num (charge m))
      else price q)"
  by (simp_all add: addMobilization_def)

text \<open>The handler prices photogrammetry for two service names and lidar for every other.\<close>

lemma submitQuote_photo:
  assumes "requestedService p = ''photo'' \<or> requestedService p = ''photogrammetry''"
  shows "submitQuote t p =
     Inr \<lparr>flagsOf = eligibilityFlags t p, serviceOf = requestedService p,
          quoteOf = addMobilization
            (calcPhoto (clampNumber (jsonOr (totalArea_acres (aoi p)) (JNum (Finite 0))))
               (photo (options p)))
            (requestedMobilization t p)\<rparr>"
  using assms by (auto simp: submitQuote_def Let_def)

lemma submitQuote_lidar:
  assumes "requestedService p \<noteq> ''photo''" and "requestedService p \<noteq> ''photogrammetry''"
  shows "submitQuote t p =
     (case calcLidar (clampNumber (jsonOr (totalArea_acres (aoi p)) (JNum (Finite 0))))
             (lidar (options p)) of
        Inl e \<Rightarrow> Inl e
      | Inr q \<Rightarrow>
          Inr \<lparr>flagsOf = eligibilityFlags t p, serviceOf = requestedService p,
               quoteOf = addMobilization q (requestedMobilization t p)\<rparr>)"
  using assms by (simp add: submitQuote_def Let_def)

lemma calcPhoto_priced:
  assumes "computePhotoBase a = Some b"
  shows "calcPhoto a opts =
     \<lparr>manualQuote = False,
      price = js_times (Num b)
        (js_nullish (getProp PHOTO_GSD_FACTORS (stringOr (gsd opts) ''3in'')) (Num 1)),
      breakdown =
        \<lparr>parts = PhotoParts b (stringOr (gsd opts) ''3in'')
           (js_nullish (getProp PHOTO_GSD_FACTORS (stringOr (gsd opts) ''3in'')) (Num 1)),
         mobilizationMiles = None, mobilizationCharge = None\<rparr>\<rparr>"
  using assms by (simp add: calcPhoto_def Let_def)

lemma base_at_zero: "computeLidarBase 0 = Some 2000" "computePhotoBase 0 = Some 800"
  by (simp_all add: computeLidarBase_def computePhotoBase_def base_consts)







text \<open>
  With a tier key that names a member of \<^verbatim>\<open>Object.prototype\<close> the quote of such a
  submission is still produced, not manual and based on the minimum, but its price is
  \<^verbatim>\<open>NaN\<close>: the reason why the price is stated for the other keys only.
\<close>

lemma unusable_acreage_inherited_key:
  "submitQuote
     \<lparr>pointDistance = (\<lambda>depot c. Some (Finite 45)), booleanIntersects = (\<lambda>f. Some True)\<rparr>
     \<lparr>aoi = \<lparr>totalArea_acres = None, centroid_lonlat = None, features = None\<rparr>,
      options = \<lparr>service = None,
                 lidar = \<lparr>density = Some ''constructor'', accuracy = None, addOns = NoAddOns\<rparr>,
                 photo = \<lparr>gsd = None\<rparr>, mobilizationOn = False\<rparr>\<rparr> =
     Inr \<lparr>flagsOf = \<lparr>areaOver300Acres = False, inServiceArea = None, autoQuoteEligible = False\<rparr>,
          serviceOf = ''lidar'',
          quoteOf =
            \<lparr>manualQuote = False, price = NaN,
             breakdown = \<lparr>parts = LidarParts 2000 (Inherited ''constructor'') (Num 1) [] (Num 0),
                          mobilizationMiles = Some 0, mobilizationCharge = Some 0\<rparr>\<rparr>\<rparr>"
proof -
  have d: "js_nullish (getProp LIDAR_DENSITY_FACTORS ''constructor'') (Num 1) = Inherited ''constructor''"
    by (simp add: getProp_def js_nullish_def LIDAR_DENSITY_FACTORS_def objectPrototypeMembers_def)
  have a: "js_nullish (getProp LIDAR_ACCURACY_FACTORS ''0.3'') (Num 1) = Num 1"
    by (simp add: getProp_def js_nullish_def LIDAR_ACCURACY_FACTORS_def)
  show ?thesis
    by (simp add: submitQuote_def Let_def requestedService_def requestedMobilization_def
        stringOr_def toLowerCase_def lowerChar_def jsonOr_def clampNumber_def
        calcLidar_priced [OF base_at_zero(1)] forEachKeys_simps d a js_times_def js_plus_def
        flags_submitQuote serviceAreaCheck_def calcMobilizationCharge_def addMobilization_def
        mathRound_def)
qed

section \<open>Keys that name a member of the prototype\<close>

text \<open>
  A key that is in no table and names no member of \<^verbatim>\<open>Object.prototype\<close> gives the
  neutral factor, and an unspecified option gives the default tier, whose factor is 1.
\<close>

lemma js_plus_Str: "js_plus x (Str vs) = Str (pieces x @ vs)" "js_plus (Str vs) y = Str (vs @ pieces y)"
  by (simp_all add: js_plus_def)

lemma unlisted_plain_key_neutral:
  "map_of tbl k = None \<Longrightarrow> k \<notin> set objectPrototypeMembers \<Longrightarrow>
   js_nullish (getProp tbl k) (Num 1) = Num 1"
  by (simp add: getProp_def js_nullish_def)

lemma unspecified_tier_defaults:
  "stringOr None ''20'' = ''20''" "stringOr None ''0.3'' = ''0.3''" "stringOr None ''3in'' = ''3in''"
  "js_nullish (getProp LIDAR_DENSITY_FACTORS ''20'') (Num 1) = Num 1"
  "js_nullish (getProp LIDAR_ACCURACY_FACTORS ''0.3'') (Num 1) = Num 1"
  "js_nullish (getProp PHOTO_GSD_FACTORS ''3in'') (Num 1) = Num 1"
  by (simp_all add: stringOr_def getProp_def js_nullish_def LIDAR_DENSITY_FACTORS_def
      LIDAR_ACCURACY_FACTORS_def PHOTO_GSD_FACTORS_def)

lemma tier_factor_shape:
  "(\<exists>v. js_nullish (getProp tbl k) (Num 1) = Num v) \<or>
   js_nullish (getProp tbl k) (Num 1) = Inherited k"
  by (simp add: getProp_def js_nullish_def split: option.splits)

lemma lidar_base_20: "computeLidarBase 20 = Some 2000"
  by (simp add: computeLidarBase_def base_consts)

text \<open>
  C6, at a key the tables inherit. The key \<^verbatim>\<open>constructor\<close> is not a key of the density
  table, yet the density factor of the quote is not 1: the read finds the inherited
  member, \<^verbatim>\<open>??\<close> keeps it, and the price is \<^verbatim>\<open>NaN\<close>. The same holds for the GSD
  factor at the key \<^verbatim>\<open>toString\<close>.
\<close>

theorem inherited_tier_key_not_neutral:
  "map_of LIDAR_DENSITY_FACTORS ''constructor'' = None \<and>
   calcLidar 20 \<lparr>density = Some ''constructor'', accuracy = None, addOns = NoAddOns\<rparr> =
     Inr \<lparr>manualQuote = False, price = NaN,
          breakdown = \<lparr>parts = LidarParts 2000 (Inherited ''constructor'') (Num 1) [] (Num 0),
                       mobilizationMiles = None, mobilizationCharge = None\<rparr>\<rparr> \<and>
   map_of PHOTO_GSD_FACTORS ''toString'' = None \<and>
   calcPhoto 10 \<lparr>gsd = Some ''toString''\<rparr> =
     \<lparr>manualQuote = False, price = NaN,
      breakdown = \<lparr>parts = PhotoParts 800 ''toString'' (Inherited ''toString''),
                   mobilizationMiles = None, mobilizationCharge = None\<rparr>\<rparr>"
proof -
  have p: "computePhotoBase 10 = Some 800"
    by (simp add: computePhotoBase_def base_consts)
  have d: "js_nullish (getProp LIDAR_DENSITY_FACTORS ''constructor'') (Num 1) = Inherited ''constructor''"
    by (simp add: getProp_def js_nullish_def LIDAR_DENSITY_FACTORS_def objectPrototypeMembers_def)
  have g: "js_nullish (getProp PHOTO_GSD_FACTORS ''toString'') (Num 1) = Inherited ''toString''"
    by (simp add: getProp_def js_nullish_def PHOTO_GSD_FACTORS_def objectPrototypeMembers_def)
  have "map_of LIDAR_DENSITY_FACTORS ''constructor'' = None"
    by (simp add: LIDAR_DENSITY_FACTORS_def)
  moreover have "calcLidar 20 \<lparr>density = Some ''constructor'', accuracy = None, addOns = NoAddOns\<rparr> =
     Inr \<lparr>manualQuote = False, price = NaN,
          breakdown = \<lparr>parts = LidarParts 2000 (Inherited ''constructor'') (Num 1) [] (Num 0),
                       mobilizationMiles = None, mobilizationCharge = None\<rparr>\<rparr>"
    by (simp add: calcLidar_priced [OF lidar_base_20] forEachKeys_simps stringOr_def d
        unspecified_tier_defaults js_times_def js_plus_def)
  moreover have "map_of PHOTO_GSD_FACTORS ''toString'' = None"
    by (simp add: PHOTO_GSD_FACTORS_def)
  moreover have "calcPhoto 10 \<lparr>gsd = Some ''toString''\<rparr> =
     \<lparr>manualQuote = False, price = NaN,
      breakdown = \<lparr>parts = PhotoParts 800 ''toString'' (Inherited ''toString''),
                   mobilizationMiles = None, mobilizationCharge = None\<rparr>\<rparr>"
    by (simp add: calcPhoto_priced [OF p] stringOr_def g js_times_def)
  ultimately show ?thesis by blast
qed

text \<open>
  C7, at a key the catalog inherits. The key \<^verbatim>\<open>constructor\<close> is not a key of the add-on
  catalog, yet it does not contribute 0: \<^verbatim>\<open>ADD_ONS[k] || 0\<close> is the inherited member,
  and the add-on total and the price become strings. A later fee is then appended to
  the string, so the total depends on the order of the keys.
\<close>

theorem inherited_addon_key_not_zero:
  "map_of ADD_ONS ''constructor'' = None \<and>
   calcLidar 20 \<lparr>density = None, accuracy = None, addOns = KeyArray [''constructor'']\<rparr> =
     Inr \<lparr>manualQuote = False, price = Str [Num 2000, Num 0, Inherited ''constructor''],
          breakdown = \<lparr>parts = LidarParts 2000 (Num 1) (Num 1) [''constructor'']
                         (Str [Num 0, Inherited ''constructor'']),
                       mobilizationMiles = None, mobilizationCharge = None\<rparr>\<rparr> \<and>
   addOnsLoop (Num 0) [''constructor'', ''dtm''] = Str [Num 0, Inherited ''constructor'', Num 450] \<and>
   addOnsLoop (Num 0) [''dtm'', ''constructor''] = Str [Num 450, Inherited ''constructor'']"
proof -
  have m: "''constructor'' \<in> set objectPrototypeMembers"
    by (simp add: objectPrototypeMembers_def)
  have dtm: "js_or (getProp ADD_ONS ''dtm'') (Num 0) = Num 450"
    by (simp add: getProp_def js_or_def ADD_ONS_def)
  have tot: "addOnsLoop (Num 0) [''constructor''] = Str [Num 0, Inherited ''constructor'']"
    by (simp add: addOn_step_member [OF m])
  have "map_of ADD_ONS ''constructor'' = None"
    using m by (rule members_not_addons)
  moreover have "calcLidar 20 \<lparr>density = None, accuracy = None, addOns = KeyArray [''constructor'']\<rparr> =
     Inr \<lparr>manualQuote = False, price = Str [Num 2000, Num 0, Inherited ''constructor''],
          breakdown = \<lparr>parts = LidarParts 2000 (Num 1) (Num 1) [''constructor'']
                         (Str [Num 0, Inherited ''constructor'']),
                       mobilizationMiles = None, mobilizationCharge = None\<rparr>\<rparr>"
    by (simp add: calcLidar_priced [OF lidar_base_20] forEachKeys_simps unspecified_tier_defaults
        tot js_times_Num js_plus_Str del: addOnsLoop.simps)
  moreover have "addOnsLoop (Num 0) [''constructor'', ''dtm''] =
      Str [Num 0, Inherited ''constructor'', Num 450]"
    by (simp add: addOn_step_member [OF m] dtm js_plus_Str)
  moreover have "addOnsLoop (Num 0) [''dtm'', ''constructor''] =
      Str [Num 450, Inherited ''constructor'']"
    by (simp add: addOn_step_member [OF m] dtm js_plus_Num)
  ultimately show ?thesis by blast
qed

text \<open>
  C9, at a list with an inherited key before the repeated one. The catalog lists
  \<^verbatim>\<open>dtm\<close> with the fee 450, and the list holds it twice after the key \<^verbatim>\<open>valueOf\<close>.
  The add-on total is not a sum that counts 450 twice: it is the string of 0, the
  member, 450 and 450, each occurrence appended as text, and the price is a string too.
\<close>

theorem repeated_key_after_inherited_key:
  "map_of ADD_ONS ''dtm'' = Some 450 \<and>
   calcLidar 20 \<lparr>density = None, accuracy = None,
                 addOns = KeyArray [''valueOf'', ''dtm'', ''dtm'']\<rparr> =
     Inr \<lparr>manualQuote = False,
          price = Str [Num 2000, Num 0, Inherited ''valueOf'', Num 450, Num 450],
          breakdown = \<lparr>parts = LidarParts 2000 (Num 1) (Num 1) [''valueOf'', ''dtm'', ''dtm'']
                         (Str [Num 0, Inherited ''valueOf'', Num 450, Num 450]),
                       mobilizationMiles = None, mobilizationCharge = None\<rparr>\<rparr>"
proof -
  have m: "''valueOf'' \<in> set objectPrototypeMembers"
    by (simp add: objectPrototypeMembers_def)
  have dtm: "js_or (getProp ADD_ONS ''dtm'') (Num 0) = Num 450"
    by (simp add: getProp_def js_or_def ADD_ONS_def)
  have tot: "addOnsLoop (Num 0) [''valueOf'', ''dtm'', ''dtm''] =
      Str [Num 0, Inherited ''valueOf'', Num 450, Num 450]"
    by (simp add: addOn_step_member [OF m] dtm js_plus_Str)
  have "map_of ADD_ONS ''dtm'' = Some 450"
    by (simp add: ADD_ONS_def)
  moreover have "calcLidar 20 \<lparr>density = None, accuracy = None,
                 addOns = KeyArray [''valueOf'', ''dtm'', ''dtm'']\<rparr> =
     Inr \<lparr>manualQuote = False,
          price = Str [Num 2000, Num 0, Inherited ''valueOf'', Num 450, Num 450],
          breakdown = \<lparr>parts = LidarParts 2000 (Num 1) (Num 1) [''valueOf'', ''dtm'', ''dtm'']
                         (Str [Num 0, Inherited ''valueOf'', Num 450, Num 450]),
                       mobilizationMiles = None, mobilizationCharge = None\<rparr>\<rparr>"
    by (simp add: calcLidar_priced [OF lidar_base_20] forEachKeys_simps unspecified_tier_defaults
        tot js_times_Num js_plus_Str del: addOnsLoop.simps)
  ultimately show ?thesis by blast
qed

text \<open>
  On a list none of whose keys names a member of \<^verbatim>\<open>Object.prototype\<close>, the add-on total
  of the lidar quote counts each key as often as it occurs: it is the sum over the
  distinct keys of (number of occurrences) times (catalog fee). And in every list, each
  occurrence of a catalog key performs one \<^verbatim>\<open>addOnsTotal += fee\<close> on the running total.
\<close>

lemma plain_keys_counted_with_multiplicity:
  assumes "a \<le> 300" and "\<forall>k\<in>set ks. k \<notin> set objectPrototypeMembers"
  shows "\<exists>b d ac p.
     calcLidar a (opts\<lparr>addOns := KeyArray ks\<rparr>) =
       Inr \<lparr>manualQuote = False, price = p,
            breakdown =
              \<lparr>parts = LidarParts b d ac ks
                 (Num (\<Sum>k\<in>set ks. real (count_list ks k) * catalogFee k)),
               mobilizationMiles = None, mobilizationCharge = None\<rparr>\<rparr>"
proof -
  from assms(1) obtain b where b: "computeLidarBase a = Some b"
    using lidar_base_exists by blast
  show ?thesis
    by (simp add: calcLidar_priced [OF b] forEachKeys_simps addOnsLoop_total [OF assms(2)])
qed

lemma catalog_key_step:
  assumes "map_of ADD_ONS k = Some fee"
  shows "addOnsLoop t (xs @ k # ys) = addOnsLoop (js_plus (addOnsLoop t xs) (Num fee)) ys"
proof -
  have "fee \<noteq> 0 \<or> fee = 0" by simp
  with assms have "js_or (getProp ADD_ONS k) (Num 0) = Num fee"
    by (auto simp: getProp_def js_or_def)
  then show ?thesis
    by (simp add: addOnsLoop_append)
qed

text \<open>
  C3, at the same key. A lidar submission of 20 acres with the add-on key
  \<^verbatim>\<open>constructor\<close>, mobilization on and a centroid 45 miles from the depot gets a quote
  that is not manual, whose breakdown records the mobilization charge 265, and whose
  price is the string of 2000, 0 and the member: the handler adds the charge only to a
  price that is a number, so the price is not what the breakdown adds up to, whose
  string ends with 265.
\<close>

theorem string_price_misses_mobilization_charge:
  "submitQuote
      \<lparr>pointDistance = (\<lambda>depot c. Some (Finite 45)), booleanIntersects = (\<lambda>f. Some True)\<rparr>
      \<lparr>aoi = \<lparr>totalArea_acres = Some (JNum (Finite 20)),
               centroid_lonlat = Some (JArr [JNum (Finite (-97)), JNum (Finite 30)]),
               features = None\<rparr>,
       options = \<lparr>service = Some ''lidar'',
                  lidar = \<lparr>density = None, accuracy = None, addOns = KeyArray [''constructor'']\<rparr>,
                  photo = \<lparr>gsd = None\<rparr>, mobilizationOn = True\<rparr>\<rparr> =
     Inr \<lparr>flagsOf = \<lparr>areaOver300Acres = False, inServiceArea = None, autoQuoteEligible = False\<rparr>,
          serviceOf = ''lidar'',
          quoteOf =
            \<lparr>manualQuote = False, price = Str [Num 2000, Num 0, Inherited ''constructor''],
             breakdown = \<lparr>parts = LidarParts 2000 (Num 1) (Num 1) [''constructor'']
                            (Str [Num 0, Inherited ''constructor'']),
                          mobilizationMiles = Some 45, mobilizationCharge = Some 265\<rparr>\<rparr>\<rparr> \<and>
   js_plus (js_plus (js_times (js_times (Num 2000) (Num 1)) (Num 1))
              (Str [Num 0, Inherited ''constructor''])) (Num 265) =
     Str [Num 2000, Num 0, Inherited ''constructor'', Num 265]"
proof -
  let ?t = "\<lparr>pointDistance = (\<lambda>depot c. Some (Finite 45)), booleanIntersects = (\<lambda>f. Some True)\<rparr>"
  let ?c = "JArr [JNum (Finite (-97)), JNum (Finite 30)]"
  let ?p = "\<lparr>aoi = \<lparr>totalArea_acres = Some (JNum (Finite 20)), centroid_lonlat = Some ?c,
               features = None\<rparr>,
       options = \<lparr>service = Some ''lidar'',
                  lidar = \<lparr>density = None, accuracy = None, addOns = KeyArray [''constructor'']\<rparr>,
                  photo = \<lparr>gsd = None\<rparr>, mobilizationOn = True\<rparr>\<rparr>"
  have m: "''constructor'' \<in> set objectPrototypeMembers"
    by (simp add: objectPrototypeMembers_def)
  have tot: "addOnsLoop (Num 0) [''constructor''] = Str [Num 0, Inherited ''constructor'']"
    by (simp add: addOn_step_member [OF m])
  have q: "calcLidar 20 \<lparr>density = None, accuracy = None, addOns = KeyArray [''constructor'']\<rparr> =
     Inr \<lparr>manualQuote = False, price = Str [Num 2000, Num 0, Inherited ''constructor''],
          breakdown = \<lparr>parts = LidarParts 2000 (Num 1) (Num 1) [''constructor'']
                         (Str [Num 0, Inherited ''constructor'']),
                       mobilizationMiles = None, mobilizationCharge = None\<rparr>\<rparr>"
    by (simp add: calcLidar_priced [OF lidar_base_20] forEachKeys_simps unspecified_tier_defaults
        tot js_times_Num js_plus_Str del: addOnsLoop.simps)
  have mob: "requestedMobilization ?t ?p = \<lparr>miles = 45, charge = 265\<rparr>"
    by (simp add: requestedMobilization_def jsonOr_def calcMobilizationCharge_def
        calcMobilizationMiles_def mathRound_def Let_def)
  have s: "requestedService ?p = ''lidar''"
    by (simp add: requestedService_def stringOr_def toLowerCase_def lowerChar_def)
  have f: "eligibilityFlags ?t ?p =
      \<lparr>areaOver300Acres = False, inServiceArea = None, autoQuoteEligible = False\<rparr>"
    by (simp add: flags_submitQuote jsonOr_def clampNumber_def serviceAreaCheck_def)
  have "submitQuote ?t ?p =
     Inr \<lparr>flagsOf = \<lparr>areaOver300Acres = False, inServiceArea = None, autoQuoteEligible = False\<rparr>,
          serviceOf = ''lidar'',
          quoteOf =
            \<lparr>manualQuote = False, price = Str [Num 2000, Num 0, Inherited ''constructor''],
             breakdown = \<lparr>parts = LidarParts 2000 (Num 1) (Num 1) [''constructor'']
                            (Str [Num 0, Inherited ''constructor'']),
                          mobilizationMiles = Some 45, mobilizationCharge = Some 265\<rparr>\<rparr>\<rparr>"
    unfolding submitQuote_def Let_def s f mob
    by (simp add: q jsonOr_def clampNumber_def addMobilization_def mathRound_def)
  moreover have "js_plus (js_plus (js_times (js_times (Num 2000) (Num 1)) (Num 1))
              (Str [Num 0, Inherited ''constructor''])) (Num 265) =
     Str [Num 2000, Num 0, Inherited ''constructor'', Num 265]"
    by (simp add: js_times_Num js_plus_Str)
  ultimately show ?thesis by blast
qed

text \<open>
  Whenever the price of the handler's quote is a number, the breakdown reconstructs it:
  the factors and the add-on total are numbers, and the price is
  \<open>base * densityFactor * accuracyFactor + addOnsTotal + mobilizationCharge\<close> for lidar
  and \<open>base * factor + mobilizationCharge\<close> for photogrammetry. A manual quote keeps the
  price \<^verbatim>\<open>null\<close> and records the rounded miles and the charge.
\<close>

lemma lidar_price_number:
  assumes d: "(\<exists>v. d = Num v) \<or> d = Inherited kd"
    and ac: "(\<exists>v. ac = Num v) \<or> ac = Inherited ka"
    and tot: "(\<exists>vs. tot = Str vs) \<or> (\<exists>v. tot = Num v)"
    and pr: "(let p0 = js_plus (js_times (js_times (Num b) d) ac) tot
             in if isNumberType p0 then js_plus p0 (Num c) else p0) = Num pr"
  shows "\<exists>dr ar tr. d = Num dr \<and> ac = Num ar \<and> tot = Num tr \<and> pr = b * dr * ar + tr + c"
  using assms by (auto simp: js_times_def js_plus_def Let_def split: if_splits)

lemma quote_of_result:
  assumes "submitQuote t p = Inr r"
  shows "\<exists>q. quoteOf r = addMobilization q (requestedMobilization t p) \<and>
     (if requestedService p = ''photo'' \<or> requestedService p = ''photogrammetry''
      then q = calcPhoto (clampNumber (jsonOr (totalArea_acres (aoi p)) (JNum (Finite 0))))
                 (photo (options p))
      else calcLidar (clampNumber (jsonOr (totalArea_acres (aoi p)) (JNum (Finite 0))))
             (lidar (options p)) = Inr q)"
proof (cases "requestedService p = ''photo'' \<or> requestedService p = ''photogrammetry''")
  case True
  from assms show ?thesis
    unfolding submitQuote_photo [OF True] using True by auto
next
  case False
  then have svc: "requestedService p \<noteq> ''photo''" "requestedService p \<noteq> ''photogrammetry''"
    by simp_all
  from assms show ?thesis
    unfolding submitQuote_lidar [OF svc] using False by (auto split: sum.splits)
qed

lemma number_price_reconstructed:
  assumes r: "submitQuote t p = Inr r" and pr: "price (quoteOf r) = Num pr"
  shows "(\<forall>b d ac ks tot. parts (breakdown (quoteOf r)) = LidarParts b d ac ks tot \<longrightarrow>
            (\<exists>dr ar tr c. d = Num dr \<and> ac = Num ar \<and> tot = Num tr \<and>
               mobilizationCharge (breakdown (quoteOf r)) = Some c \<and>
               pr = b * dr * ar + tr + c)) \<and>
         (\<forall>b g f. parts (breakdown (quoteOf r)) = PhotoParts b g f \<longrightarrow>
            (\<exists>fr c. f = Num fr \<and>
               mobilizationCharge (breakdown (quoteOf r)) = Some c \<and>
               pr = b * fr + c))"
proof -
  let ?a = "clampNumber (jsonOr (totalArea_acres (aoi p)) (JNum (Finite 0)))"
  let ?m = "requestedMobilization t p"
  from quote_of_result [OF r] obtain q0 where q: "quoteOf r = addMobilization q0 ?m"
    and q0: "if requestedService p = ''photo'' \<or> requestedService p = ''photogrammetry''
      then q0 = calcPhoto ?a (photo (options p))
      else calcLidar ?a (lidar (options p)) = Inr q0"
    by blast
  show ?thesis
  proof (cases "requestedService p = ''photo'' \<or> requestedService p = ''photogrammetry''")
    case True
    with q0 have q0: "q0 = calcPhoto ?a (photo (options p))" by simp
    show ?thesis
    proof (cases "computePhotoBase ?a")
      case None
      with pr show ?thesis
        by (simp add: q q0 calcPhoto_def manualSentinel_def addMobilization_fields)
    next
      case (Some b)
      let ?f = "js_nullish (getProp PHOTO_GSD_FACTORS (stringOr (gsd (photo (options p))) ''3in'')) (Num 1)"
      from tier_factor_shape [of PHOTO_GSD_FACTORS "stringOr (gsd (photo (options p))) ''3in''"]
      have "(\<exists>v. ?f = Num v) \<or> (\<exists>k. ?f = Inherited k)" by blast
      with pr show ?thesis
        by (auto simp: q q0 calcPhoto_priced [OF Some] addMobilization_fields js_times_def
            js_plus_def split: if_splits)
    qed
  next
    case False
    with q0 have q0: "calcLidar ?a (lidar (options p)) = Inr q0" by simp
    show ?thesis
    proof (cases "computeLidarBase ?a")
      case None
      with q0 have "q0 = manualSentinel" by (simp add: calcLidar_def)
      with pr show ?thesis
        by (simp add: q manualSentinel_def addMobilization_fields)
    next
      case (Some b)
      let ?d = "js_nullish (getProp LIDAR_DENSITY_FACTORS (stringOr (density (lidar (options p))) ''20'')) (Num 1)"
      let ?ac = "js_nullish (getProp LIDAR_ACCURACY_FACTORS (stringOr (accuracy (lidar (options p))) ''0.3'')) (Num 1)"
      from q0 obtain ks where ks: "forEachKeys (addOns (lidar (options p))) = Inr ks"
        by (cases "forEachKeys (addOns (lidar (options p)))")
           (simp_all add: calcLidar_priced [OF Some])
      from q0 ks have f: "\<not> manualQuote q0"
        "price q0 = js_plus (js_times (js_times (Num b) ?d) ?ac) (addOnsLoop (Num 0) ks)"
        "parts (breakdown q0) = LidarParts b ?d ?ac ks (addOnsLoop (Num 0) ks)"
        by (auto simp: calcLidar_priced [OF Some])
      have p0: "(let p0 = js_plus (js_times (js_times (Num b) ?d) ?ac) (addOnsLoop (Num 0) ks)
             in if isNumberType p0 then js_plus p0 (Num (charge ?m)) else p0) = Num pr"
        using pr by (simp add: q addMobilization_fields f Let_def cong: if_cong)
      from lidar_price_number [OF tier_factor_shape tier_factor_shape addOnsLoop_shape p0]
      show ?thesis
        by (simp add: q addMobilization_fields f)
    qed
  qed
qed

lemma manual_quote_records_mobilization:
  assumes r: "submitQuote t p = Inr r" and "manualQuote (quoteOf r)"
  shows "price (quoteOf r) = Null \<and>
     parts (breakdown (quoteOf r)) = NoBase \<and>
     mobilizationMiles (breakdown (quoteOf r)) =
       Some (mathRound (miles (requestedMobilization t p))) \<and>
     mobilizationCharge (breakdown (quoteOf r)) = Some (charge (requestedMobilization t p))"
proof -
  from quote_of_result [OF r] obtain q0
    where q: "quoteOf r = addMobilization q0 (requestedMobilization t p)"
    and q0: "if requestedService p = ''photo'' \<or> requestedService p = ''photogrammetry''
      then q0 = calcPhoto (clampNumber (jsonOr (totalArea_acres (aoi p)) (JNum (Finite 0))))
                  (photo (options p))
      else calcLidar (clampNumber (jsonOr (totalArea_acres (aoi p)) (JNum (Finite 0))))
             (lidar (options p)) = Inr q0"
    by blast
  from assms(2) q have "manualQuote q0"
    by (simp add: addMobilization_fields)
  with q0 have "q0 = manualSentinel"
    by (auto simp: calcLidar_def calcPhoto_def Let_def split: option.splits if_splits sum.splits)
  then show ?thesis
    by (simp add: q manualSentinel_def addMobilization_fields)
qed

text \<open>
  A list of keys none of which names a member of \<^verbatim>\<open>Object.prototype\<close> has the same
  total in any order.
\<close>

lemma addOnsLoop_reorder:
  assumes "\<forall>k. count_list ks k = count_list ks' k"
    and "\<forall>k\<in>set ks. k \<notin> set objectPrototypeMembers"
  shows "addOnsLoop (Num 0) ks' = addOnsLoop (Num 0) ks"
proof -
  from assms(1) have "set ks = set ks'"
    by (metis count_list_0_iff subsetI subset_antisym)
  with assms show ?thesis by (simp add: addOnsLoop_total)
qed

end
